theory Spec2Isabelle
  imports Main "HOL-Library.Word"
begin

section \<open>Data model\<close>

text \<open>
  The read stream of \<^verbatim>\<open>FileIoReadStream.cpp\<close> and the server routines of
  \<^verbatim>\<open>FileIoServer.cpp\<close> work on request nodes that point at each other. The model keeps an
  explicit store: every field of \<^verbatim>\<open>FileIoRequest\<close> is a map from addresses to values, so
  \<open>requestType s r\<close> reads \<^verbatim>\<open>r->requestType\<close> in the state \<open>s\<close>; address \<open>0\<close> is the null
  pointer. Client and server exchange nodes through two queues only, so a run of the system
  is modelled as an interleaving of whole client calls and single server requests.
\<close>

type_synonym addr = nat
type_synonym size_t = "32 word"
type_synonym byte = "8 word"

text \<open>
  Modelled from the spec: the header \<^verbatim>\<open>FileIoRequest.h\<close> (request kinds, the marker
  \<^verbatim>\<open>RESULT_QUEUE_IS_AWAITING_CLEANUP_\<close>, \<^verbatim>\<open>CLIENT_USE_BASE_\<close>) and the stream states of
  \<^verbatim>\<open>FileIoReadStream.h\<close> are not among the sources. All of them are stored in the one
  \<^verbatim>\<open>requestType\<close> slot; the tags are taken as pairwise distinct. The source defines
  \<^verbatim>\<open>BLOCK_STATE_PENDING\<close> as \<^verbatim>\<open>READ_BLOCK\<close> and \<^verbatim>\<open>BLOCK_STATE_READY\<close> as
  \<^verbatim>\<open>CLIENT_USE_BASE_\<close>.
\<close>

datatype request_type =
    OPEN_FILE
  | CLOSE_FILE
  | READ_BLOCK
  | RELEASE_READ_BLOCK
  | ALLOCATE_WRITE_BLOCK
  | COMMIT_MODIFIED_WRITE_BLOCK
  | RELEASE_UNMODIFIED_WRITE_BLOCK
  | CLEANUP_RESULT_QUEUE
  | RESULT_QUEUE_IS_AWAITING_CLEANUP
  | BLOCK_STATE_READY
  | BLOCK_STATE_MODIFIED
  | BLOCK_STATE_ERROR
  | STREAM_STATE_OPENING
  | STREAM_STATE_OPEN_IDLE
  | STREAM_STATE_OPEN_EOF
  | STREAM_STATE_OPEN_BUFFERING
  | STREAM_STATE_OPEN_STREAMING
  | STREAM_STATE_ERROR

abbreviation (input) BLOCK_STATE_PENDING :: request_type where
  "BLOCK_STATE_PENDING \<equiv> READ_BLOCK"

datatype open_mode = READ_ONLY_OPEN_MODE | READ_WRITE_OVERWRITE_OPEN_MODE

abbreviation (input) NOERROR :: int where "NOERROR \<equiv> 0"

definition EIO :: int where "EIO = 5"
definition EBADF :: int where "EBADF = 9"
definition ENOMEM :: int where "ENOMEM = 12"

text \<open>\<^verbatim>\<open>IO_INVALID_FILE_HANDLE\<close>: the server reports a failed open with a null handle.\<close>

abbreviation (input) IO_INVALID_FILE_HANDLE :: addr where "IO_INVALID_FILE_HANDLE \<equiv> 0"

record DataBlock =
  capacityBytes :: size_t
  validCountBytes :: size_t
  data :: "byte list"

record FileRecord =
  fp :: nat
  dependentClientCount :: int

text \<open>
  The places where the source asserts. A failed assertion aborts a debug build and is
  compiled out of a release build; the model records it in \<open>faults\<close> and goes on as the
  release build does.
\<close>

datatype fault =
    ASSERT_push_back_tail
  | ASSERT_sequential_nonempty
  | ASSERT_flush_ready_hasDataBlock
  | ASSERT_flush_modified_hasDataBlock
  | ASSERT_transformToCommitModified
  | ASSERT_flush_error_noDataBlock
  | ASSERT_flush_waiting_zero
  | ASSERT_receive_isAcquire
  | ASSERT_receive_discarded_error_hasDataBlock
  | ASSERT_receive_ready_hasDataBlock
  | ASSERT_read_front
  | ASSERT_copy_itemSize
  | ASSERT_poll_openFileReq
  | ASSERT_poll_fileHandle
  | ASSERT_poll_state
  | ASSERT_server_requestType
  | ASSERT_server_release_dataBlock
  | ASSERT_server_cleanup_default
  | ASSERT_allocDataBlock

text \<open>
  The state of the whole system. The first group of fields is the memory of the request
  nodes, one map per field of \<^verbatim>\<open>FileIoRequest\<close>. The payload union of the source is
  flattened: every member has fields of its own, named \<open>member_field\<close>. The embedded result
  queue (\<^verbatim>\<open>QwSPSCUnorderedResultQueue\<close>, not among the sources) is modelled from the spec as
  the list of queued replies and the expected-result count. Then come the free list of the
  request pool, the server's mailbox, the data blocks and file records the server
  allocates with \<^verbatim>\<open>new\<close>, what was deleted and closed, and the failed assertions.
\<close>

record sys =
  requestType :: "addr \<Rightarrow> request_type"
  resultStatus :: "addr \<Rightarrow> int"
  transit_link :: "addr \<Rightarrow> addr"
  client_link :: "addr \<Rightarrow> addr"
  clientInt :: "addr \<Rightarrow> size_t"
  openFile_path :: "addr \<Rightarrow> string option"
  openFile_openMode :: "addr \<Rightarrow> open_mode"
  openFile_fileHandle :: "addr \<Rightarrow> addr"
  openFile_resultQueue :: "addr \<Rightarrow> addr"
  closeFile_fileHandle :: "addr \<Rightarrow> addr"
  readBlock_fileHandle :: "addr \<Rightarrow> addr"
  readBlock_filePosition :: "addr \<Rightarrow> size_t"
  readBlock_dataBlock :: "addr \<Rightarrow> addr"
  readBlock_isAtEof :: "addr \<Rightarrow> bool"
  readBlock_resultQueue :: "addr \<Rightarrow> addr"
  releaseReadBlock_fileHandle :: "addr \<Rightarrow> addr"
  releaseReadBlock_dataBlock :: "addr \<Rightarrow> addr"
  allocateWriteBlock_fileHandle :: "addr \<Rightarrow> addr"
  allocateWriteBlock_filePosition :: "addr \<Rightarrow> size_t"
  allocateWriteBlock_dataBlock :: "addr \<Rightarrow> addr"
  allocateWriteBlock_resultQueue :: "addr \<Rightarrow> addr"
  commitModifiedWriteBlock_fileHandle :: "addr \<Rightarrow> addr"
  commitModifiedWriteBlock_dataBlock :: "addr \<Rightarrow> addr"
  releaseUnmodifiedWriteBlock_fileHandle :: "addr \<Rightarrow> addr"
  releaseUnmodifiedWriteBlock_dataBlock :: "addr \<Rightarrow> addr"
  resultQueue_items :: "addr \<Rightarrow> addr list"
  resultQueue_expected :: "addr \<Rightarrow> size_t"
  pool :: "addr list"
  mailbox :: "addr list"
  blocks :: "addr \<Rightarrow> DataBlock"
  fileRecords :: "addr \<Rightarrow> FileRecord"
  next_new :: addr
  deleted :: "addr list"
  fclosed :: "nat list"
  faults :: "fault list"

text \<open>
  What the operating system and the C++ runtime answer while the server handles one
  request: whether \<^verbatim>\<open>new\<close> succeeds, the \<^verbatim>\<open>FILE*\<close> of \<^verbatim>\<open>fopen\<close> (0 on failure), the results
  of \<^verbatim>\<open>fseek\<close>, \<^verbatim>\<open>fread\<close> and \<^verbatim>\<open>feof\<close>, \<^verbatim>\<open>errno\<close>, the bytes an uninitialised buffer
  holds, and the place a pushed reply takes in the unordered result queue.
\<close>

record os_env =
  new_ok :: bool
  fopen_fp :: nat
  fseek_rc :: int
  fread_bytes :: "byte list"
  feof_rc :: int
  errno :: int
  uninit :: "byte list"
  rq_slot :: nat

definition assert' :: "fault \<Rightarrow> bool \<Rightarrow> sys \<Rightarrow> sys" where
  "assert' lbl c s = (if c then s else s\<lparr>faults := lbl # faults s\<rparr>)"

section \<open>Request pool, mailbox and result queue\<close>

text \<open>
  Modelled from the spec: \<^verbatim>\<open>QwNodePool\<close> is a LIFO of free nodes; \<^verbatim>\<open>allocate\<close> returns the
  top or null, \<^verbatim>\<open>deallocate\<close> pushes.
\<close>

definition allocFileIoRequest :: "sys \<Rightarrow> addr \<times> sys" where
  "allocFileIoRequest s =
     (case pool s of [] \<Rightarrow> (0, s) | a # p \<Rightarrow> (a, s\<lparr>pool := p\<rparr>))"

definition freeFileIoRequest :: "addr \<Rightarrow> sys \<Rightarrow> sys" where
  "freeFileIoRequest r s = s\<lparr>pool := r # pool s\<rparr>"

text \<open>
  Modelled from the spec: the mailbox is a FIFO of request pointers; the wake-up event of
  \<^verbatim>\<open>sendFileIoRequestToServer\<close> has no effect on the data.
\<close>

definition sendFileIoRequestToServer :: "addr \<Rightarrow> sys \<Rightarrow> sys" where
  "sendFileIoRequestToServer r s = s\<lparr>mailbox := mailbox s @ [r]\<rparr>"

text \<open>
  Modelled from the spec: the result queue. \<open>pop\<close> returns a queued reply and decrements
  the expected-result count, or returns null; \<open>push\<close> adds a reply, at a place the
  environment chooses since the queue is unordered.
\<close>

definition resultQueue_pop :: "addr \<Rightarrow> sys \<Rightarrow> addr \<times> sys" where
  "resultQueue_pop q s =
     (case resultQueue_items s q of
        [] \<Rightarrow> (0, s)
      | r # rs \<Rightarrow>
          (r, s\<lparr>resultQueue_items := (resultQueue_items s)(q := rs),
                resultQueue_expected := (resultQueue_expected s)(q := resultQueue_expected s q - 1)\<rparr>))"

definition resultQueue_push :: "nat \<Rightarrow> addr \<Rightarrow> addr \<Rightarrow> sys \<Rightarrow> sys" where
  "resultQueue_push k q r s =
     s\<lparr>resultQueue_items := (resultQueue_items s)(q :=
          take k (resultQueue_items s q) @ r # drop k (resultQueue_items s q))\<rparr>"

definition expectedResultCount :: "sys \<Rightarrow> addr \<Rightarrow> size_t" where
  "expectedResultCount s q = resultQueue_expected s q"

definition incrementExpectedResultCount :: "addr \<Rightarrow> sys \<Rightarrow> sys" where
  "incrementExpectedResultCount q s =
     s\<lparr>resultQueue_expected := (resultQueue_expected s)(q := resultQueue_expected s q + 1)\<rparr>"

section \<open>Block requests (BlockRequestBehavior, ReadBlockRequestBehavior)\<close>

definition isAcquireBlockRequest :: "sys \<Rightarrow> addr \<Rightarrow> bool" where
  "isAcquireBlockRequest s r = (requestType s r = READ_BLOCK)"

definition hasDataBlock :: "sys \<Rightarrow> addr \<Rightarrow> bool" where
  "hasDataBlock s r = (readBlock_dataBlock s r \<noteq> 0)"

definition isDiscarded :: "sys \<Rightarrow> addr \<Rightarrow> bool" where
  "isDiscarded s r = (clientInt s r = - 1)"

definition setDiscarded :: "addr \<Rightarrow> sys \<Rightarrow> sys" where
  "setDiscarded r s = s\<lparr>clientInt := (clientInt s)(r := - 1)\<rparr>"

definition filePosition :: "sys \<Rightarrow> addr \<Rightarrow> size_t" where
  "filePosition s r = readBlock_filePosition s r"

definition initAcquire :: "addr \<Rightarrow> addr \<Rightarrow> size_t \<Rightarrow> addr \<Rightarrow> sys \<Rightarrow> sys" where
  "initAcquire blockReq fileHandle pos resultQueueReq s =
     s\<lparr>client_link := (client_link s)(blockReq := 0),
       resultStatus := (resultStatus s)(blockReq := 0),
       clientInt := (clientInt s)(blockReq := 0),
       requestType := (requestType s)(blockReq := READ_BLOCK),
       readBlock_fileHandle := (readBlock_fileHandle s)(blockReq := fileHandle),
       readBlock_filePosition := (readBlock_filePosition s)(blockReq := pos),
       readBlock_dataBlock := (readBlock_dataBlock s)(blockReq := 0),
       readBlock_resultQueue := (readBlock_resultQueue s)(blockReq := resultQueueReq)\<rparr>"

definition transformToReleaseUnmodified :: "addr \<Rightarrow> sys \<Rightarrow> sys" where
  "transformToReleaseUnmodified blockReq s =
     (let fileHandle = readBlock_fileHandle s blockReq;
          dataBlock = readBlock_dataBlock s blockReq
      in s\<lparr>requestType := (requestType s)(blockReq := RELEASE_READ_BLOCK),
           releaseReadBlock_fileHandle := (releaseReadBlock_fileHandle s)(blockReq := fileHandle),
           releaseReadBlock_dataBlock := (releaseReadBlock_dataBlock s)(blockReq := dataBlock)\<rparr>)"

definition transformToCommitModified :: "addr \<Rightarrow> sys \<Rightarrow> sys" where
  "transformToCommitModified readBlockReq s = assert' ASSERT_transformToCommitModified False s"

datatype CopyStatus = CAN_CONTINUE | AT_BLOCK_END | AT_FINAL_BLOCK_END

text \<open>
  \<^verbatim>\<open>copyBlockData\<close> returns the status, the number of bytes copied and the bytes that
  \<^verbatim>\<open>memcpy\<close> wrote to the user's buffer. The subtraction is the source's unsigned one.
  Where \<^verbatim>\<open>memcpy\<close> would read past the end of the block's buffer the model has no bytes
  to give: the list is then shorter than the count.
\<close>

definition copyBlockData ::
  "addr \<Rightarrow> size_t \<Rightarrow> size_t \<Rightarrow> sys \<Rightarrow> (CopyStatus \<times> size_t \<times> byte list) \<times> sys" where
  "copyBlockData blockReq maxBytesToCopy itemSize s =
     (let blk = blocks s (readBlock_dataBlock s blockReq);
          blockBytesCopiedSoFar = clientInt s blockReq;
          bytesRemainingInBlock = validCountBytes blk - blockBytesCopiedSoFar;
          N = min bytesRemainingInBlock maxBytesToCopy;
          written = take (unat N) (drop (unat blockBytesCopiedSoFar) (data blk));
          s = s\<lparr>clientInt := (clientInt s)(blockReq := clientInt s blockReq + N)\<rparr>;
          bytesRemainingInBlock = bytesRemainingInBlock - N;
          s = assert' ASSERT_copy_itemSize
                (bytesRemainingInBlock = 0 \<or> bytesRemainingInBlock \<ge> itemSize) s
      in if bytesRemainingInBlock = 0 then
           (if readBlock_isAtEof s blockReq
            then ((AT_FINAL_BLOCK_END, N, written), s)
            else ((AT_BLOCK_END, N, written), s))
         else ((CAN_CONTINUE, N, written), s))"

section \<open>The stream wrapper (FileIoStreamWrapper)\<close>

text \<open>
  The stream is the node \<open>q\<close> (\<^verbatim>\<open>resultQueueReq_\<close>). Its fields are read through the
  source's aliases; a trailing underscore of a source name is written as a prime.
\<close>

definition openFileReq :: "sys \<Rightarrow> addr \<Rightarrow> addr" where
  "openFileReq s q = transit_link s q"

definition state' :: "sys \<Rightarrow> addr \<Rightarrow> request_type" where
  "state' s q = requestType s q"

definition error' :: "sys \<Rightarrow> addr \<Rightarrow> int" where
  "error' s q = resultStatus s q"

definition prefetchQueueHead' :: "sys \<Rightarrow> addr \<Rightarrow> addr" where
  "prefetchQueueHead' s q = client_link s q"

definition prefetchQueueTail' :: "sys \<Rightarrow> addr \<Rightarrow> addr" where
  "prefetchQueueTail' s q = client_link s (openFileReq s q)"

definition waitingForBlocksCount' :: "sys \<Rightarrow> addr \<Rightarrow> size_t" where
  "waitingForBlocksCount' s q = clientInt s q"

definition set_state :: "addr \<Rightarrow> request_type \<Rightarrow> sys \<Rightarrow> sys" where
  "set_state q v s = s\<lparr>requestType := (requestType s)(q := v)\<rparr>"

definition prefetchQueue_front :: "sys \<Rightarrow> addr \<Rightarrow> addr" where
  "prefetchQueue_front s q = prefetchQueueHead' s q"

definition prefetchQueue_pop_front :: "addr \<Rightarrow> sys \<Rightarrow> sys" where
  "prefetchQueue_pop_front q s =
     (let x = prefetchQueueHead' s q;
          s = s\<lparr>client_link := (client_link s)(q := client_link s x)\<rparr>
      in s\<lparr>client_link := (client_link s)(x := 0)\<rparr>)"

definition prefetchQueue_push_back :: "addr \<Rightarrow> addr \<Rightarrow> sys \<Rightarrow> sys" where
  "prefetchQueue_push_back q blockReq s =
     (let s = assert' ASSERT_push_back_tail (prefetchQueueTail' s q \<noteq> 0) s;
          s = s\<lparr>client_link := (client_link s)(prefetchQueueTail' s q := blockReq)\<rparr>
      in s\<lparr>client_link := (client_link s)(openFileReq s q := blockReq)\<rparr>)"

definition sendBlockRequestToServer :: "addr \<Rightarrow> addr \<Rightarrow> sys \<Rightarrow> sys" where
  "sendBlockRequestToServer q blockReq s =
     (let s = sendFileIoRequestToServer blockReq s;
          s = incrementExpectedResultCount q s
      in s\<lparr>clientInt := (clientInt s)(q := clientInt s q + 1)\<rparr>)"

text \<open>\<open>B\<close> is \<^verbatim>\<open>IO_DATA_BLOCK_DATA_CAPACITY_BYTES\<close>, declared in \<^verbatim>\<open>DataBlock.h\<close>.\<close>

definition initLinkAndSendSequentialBlockRequest :: "size_t \<Rightarrow> addr \<Rightarrow> addr \<Rightarrow> sys \<Rightarrow> sys" where
  "initLinkAndSendSequentialBlockRequest B q blockReq s =
     (let s = assert' ASSERT_sequential_nonempty
                (prefetchQueueHead' s q \<noteq> 0 \<and> prefetchQueueTail' s q \<noteq> 0) s;
          s = initAcquire blockReq (openFile_fileHandle s (openFileReq s q))
                (filePosition s (prefetchQueueTail' s q) + B) q s;
          s = prefetchQueue_push_back q blockReq s
      in sendBlockRequestToServer q blockReq s)"

definition flushBlock :: "addr \<Rightarrow> addr \<Rightarrow> sys \<Rightarrow> sys" where
  "flushBlock q blockReq s =
     (if requestType s blockReq = BLOCK_STATE_PENDING then
        (let s = setDiscarded blockReq s
         in s\<lparr>clientInt := (clientInt s)(q := clientInt s q - 1)\<rparr>)
      else if requestType s blockReq = BLOCK_STATE_READY then
        sendFileIoRequestToServer blockReq
          (transformToReleaseUnmodified blockReq
            (assert' ASSERT_flush_ready_hasDataBlock (hasDataBlock s blockReq) s))
      else if requestType s blockReq = BLOCK_STATE_MODIFIED then
        sendFileIoRequestToServer blockReq
          (transformToCommitModified blockReq
            (assert' ASSERT_flush_modified_hasDataBlock (hasDataBlock s blockReq) s))
      else if requestType s blockReq = BLOCK_STATE_ERROR then
        freeFileIoRequest blockReq
          (assert' ASSERT_flush_error_noDataBlock (\<not> hasDataBlock s blockReq) s)
      else s)"

text \<open>The loop of \<^verbatim>\<open>flushPrefetchQueue\<close>; it need not end on a cyclic or endless chain.\<close>

partial_function (option) flushPrefetchQueue_loop :: "addr \<Rightarrow> sys \<Rightarrow> sys option" where
  "flushPrefetchQueue_loop q s =
     (if prefetchQueueHead' s q \<noteq> 0 then
        flushPrefetchQueue_loop q
          (flushBlock q (prefetchQueue_front s q) (prefetchQueue_pop_front q s))
      else Some s)"

definition flushPrefetchQueue :: "addr \<Rightarrow> sys \<Rightarrow> sys option" where
  "flushPrefetchQueue q s =
     (case flushPrefetchQueue_loop q s of
        None \<Rightarrow> None
      | Some s \<Rightarrow>
          (let s = s\<lparr>client_link := (client_link s)(openFileReq s q := 0)\<rparr>
           in Some (assert' ASSERT_flush_waiting_zero (waitingForBlocksCount' s q = 0) s)))"

definition roundDownToBlockSizeAlignedPosition :: "size_t \<Rightarrow> size_t \<Rightarrow> size_t" where
  "roundDownToBlockSizeAlignedPosition B pos = (let blockNumber = pos div B in blockNumber * B)"

definition receiveOneBlock :: "addr \<Rightarrow> sys \<Rightarrow> bool \<times> sys" where
  "receiveOneBlock q s =
     (let (r, s) = resultQueue_pop q s in
      if r \<noteq> 0 then
        (let s = assert' ASSERT_receive_isAcquire (isAcquireBlockRequest s r) s in
         (True,
          if isDiscarded s r then
            (if resultStatus s r = NOERROR then
               sendFileIoRequestToServer r (transformToReleaseUnmodified r s)
             else
               freeFileIoRequest r
                 (assert' ASSERT_receive_discarded_error_hasDataBlock (hasDataBlock s r) s))
          else
            (let s = s\<lparr>clientInt := (clientInt s)(q := clientInt s q - 1)\<rparr>;
                 s = (if waitingForBlocksCount' s q = 0
                      then set_state q STREAM_STATE_OPEN_STREAMING s else s)
             in if resultStatus s r = NOERROR then
                  (let s = assert' ASSERT_receive_ready_hasDataBlock (hasDataBlock s r) s
                   in s\<lparr>requestType := (requestType s)(r := BLOCK_STATE_READY)\<rparr>)
                else s\<lparr>requestType := (requestType s)(r := BLOCK_STATE_ERROR)\<rparr>)))
      else (False, s))"

section \<open>open, seek, pollState, getError\<close>

definition FileIoReadStream_open :: "string \<Rightarrow> open_mode \<Rightarrow> sys \<Rightarrow> addr \<times> sys" where
  "FileIoReadStream_open path openMode s =
     (let (resultQueueReq, s) = allocFileIoRequest s in
      if resultQueueReq = 0 then (0, s) else
      let (openFileReq, s) = allocFileIoRequest s in
      if openFileReq = 0 then (0, freeFileIoRequest resultQueueReq s) else
      let s = s\<lparr>resultQueue_items := (resultQueue_items s)(resultQueueReq := []),
                resultQueue_expected := (resultQueue_expected s)(resultQueueReq := 0)\<rparr>;
          s = s\<lparr>transit_link := (transit_link s)(resultQueueReq := openFileReq)\<rparr>;
          s = set_state resultQueueReq STREAM_STATE_OPENING s;
          s = s\<lparr>resultStatus := (resultStatus s)(resultQueueReq := 0)\<rparr>;
          s = s\<lparr>client_link := (client_link s)(resultQueueReq := 0)\<rparr>;
          s = s\<lparr>client_link := (client_link s)(openFileReq := 0)\<rparr>;
          s = s\<lparr>clientInt := (clientInt s)(resultQueueReq := 0)\<rparr>;
          s = s\<lparr>resultStatus := (resultStatus s)(openFileReq := 0),
                requestType := (requestType s)(openFileReq := OPEN_FILE),
                openFile_path := (openFile_path s)(openFileReq := Some path),
                openFile_openMode := (openFile_openMode s)(openFileReq := openMode),
                openFile_fileHandle := (openFile_fileHandle s)(openFileReq := IO_INVALID_FILE_HANDLE),
                openFile_resultQueue := (openFile_resultQueue s)(openFileReq := resultQueueReq)\<rparr>;
          s = sendFileIoRequestToServer openFileReq s;
          s = incrementExpectedResultCount resultQueueReq s
      in (resultQueueReq, s))"

text \<open>The \<^verbatim>\<open>for\<close> loop of \<^verbatim>\<open>seek\<close>, by the number of requests still to send.\<close>

primrec seek_requests :: "size_t \<Rightarrow> addr \<Rightarrow> nat \<Rightarrow> sys \<Rightarrow> bool \<times> sys" where
  "seek_requests B q 0 s = (True, s)"
| "seek_requests B q (Suc n) s =
     (let (readBlockReq, s) = allocFileIoRequest s in
      if readBlockReq = 0 then (False, s)
      else seek_requests B q n (initLinkAndSendSequentialBlockRequest B q readBlockReq s))"

definition prefetchQueueBlockCount :: nat where
  "prefetchQueueBlockCount = 20"

definition seek :: "size_t \<Rightarrow> addr \<Rightarrow> size_t \<Rightarrow> sys \<Rightarrow> (int \<times> sys) option" where
  "seek B q pos s =
     (if state' s q = STREAM_STATE_OPENING \<or> state' s q = STREAM_STATE_ERROR then Some (- 1, s)
      else
        case flushPrefetchQueue q s of
          None \<Rightarrow> None
        | Some s \<Rightarrow>
            (let blockFilePositionBytes = roundDownToBlockSizeAlignedPosition B pos;
                 (firstBlockReq, s) = allocFileIoRequest s
             in if firstBlockReq = 0 then Some (- 1, set_state q STREAM_STATE_ERROR s)
                else
                  (let s = initAcquire firstBlockReq (openFile_fileHandle s (openFileReq s q))
                             blockFilePositionBytes q s;
                       s = s\<lparr>clientInt := (clientInt s)(firstBlockReq :=
                                pos - blockFilePositionBytes)\<rparr>;
                       s = s\<lparr>client_link := (client_link s)(q := firstBlockReq)\<rparr>;
                       s = s\<lparr>client_link := (client_link s)(openFileReq s q := firstBlockReq)\<rparr>;
                       s = sendBlockRequestToServer q firstBlockReq s;
                       (ok, s) = seek_requests B q (prefetchQueueBlockCount - 1) s
                   in if ok then Some (0, set_state q STREAM_STATE_OPEN_BUFFERING s)
                      else Some (- 1, set_state q STREAM_STATE_ERROR s))))"

definition pollState :: "addr \<Rightarrow> sys \<Rightarrow> request_type \<times> sys" where
  "pollState q s =
     (let s =
        (if expectedResultCount s q > 0 then
           (if state' s q = STREAM_STATE_OPENING then
              (let (r, s) = resultQueue_pop q s in
               if r \<noteq> 0 then
                 (let s = assert' ASSERT_poll_openFileReq (r = openFileReq s q) s;
                      s = s\<lparr>openFile_path := (openFile_path s)(r := None)\<rparr>
                  in if resultStatus s r = NOERROR then
                       set_state q STREAM_STATE_OPEN_IDLE
                         (assert' ASSERT_poll_fileHandle (openFile_fileHandle s r \<noteq> 0) s)
                     else
                       set_state q STREAM_STATE_ERROR
                         (s\<lparr>resultStatus := (resultStatus s)(q := resultStatus s r)\<rparr>))
               else s)
            else
              snd (receiveOneBlock q
                (assert' ASSERT_poll_state
                   (state' s q = STREAM_STATE_OPEN_IDLE
                    \<or> state' s q = STREAM_STATE_OPEN_EOF
                    \<or> state' s q = STREAM_STATE_OPEN_BUFFERING
                    \<or> state' s q = STREAM_STATE_OPEN_STREAMING
                    \<or> state' s q = STREAM_STATE_ERROR) s)))
         else s)
      in (state' s q, s))"

definition getError :: "sys \<Rightarrow> addr \<Rightarrow> int" where
  "getError s q = error' s q"

section \<open>read\<close>

lemma receiveOneBlock_shortens:
  "receiveOneBlock q s = (True, s') \<Longrightarrow>
     length (resultQueue_items s' q) < length (resultQueue_items s q)"
  by (auto simp: receiveOneBlock_def resultQueue_pop_def assert'_def set_state_def
      sendFileIoRequestToServer_def transformToReleaseUnmodified_def freeFileIoRequest_def
      Let_def split: list.splits if_splits)

text \<open>\<^verbatim>\<open>while (receiveOneBlock()) ;\<close>\<close>

function receive_all :: "addr \<Rightarrow> sys \<Rightarrow> sys" where
  "receive_all q s =
     (let (received, s') = receiveOneBlock q s in
      if received then receive_all q s' else s')"
  by pat_completeness auto
termination
  by (relation "measure (\<lambda>(q, s). length (resultQueue_items s q))")
     (auto dest: receiveOneBlock_shortens [OF sym])

declare receive_all.simps [simp del]

text \<open>
  \<^verbatim>\<open>while (state_(frontBlockReq) == BLOCK_STATE_PENDING) { if (!receiveOneBlock()) break; }\<close>
\<close>

function receive_while_pending :: "addr \<Rightarrow> addr \<Rightarrow> sys \<Rightarrow> sys" where
  "receive_while_pending q frontBlockReq s =
     (if requestType s frontBlockReq = BLOCK_STATE_PENDING then
        (let (received, s') = receiveOneBlock q s in
         if received then receive_while_pending q frontBlockReq s' else s')
      else s)"
  by pat_completeness auto
termination
  by (relation "measure (\<lambda>(q, f, s). length (resultQueue_items s q))")
     (auto dest: receiveOneBlock_shortens [OF sym])

declare receive_while_pending.simps [simp del]

text \<open>
  The copy loop of \<^verbatim>\<open>read_or_write\<close>. The result is the number of items returned and the
  bytes written to the user's buffer, in order. \<open>None\<close> stands for a loop that does not
  end.
\<close>

partial_function (option) read_loop ::
  "size_t \<Rightarrow> addr \<Rightarrow> size_t \<Rightarrow> size_t \<Rightarrow> size_t \<Rightarrow> byte list \<Rightarrow> sys
     \<Rightarrow> ((size_t \<times> byte list) \<times> sys) option" where
  "read_loop B q itemSize itemCount bytesCopiedSoFar out s =
     (if bytesCopiedSoFar < itemSize * itemCount then
        (let frontBlockReq = prefetchQueue_front s q;
             s = assert' ASSERT_read_front (frontBlockReq \<noteq> 0) s;
             s = receive_while_pending q frontBlockReq s
         in if requestType s frontBlockReq = BLOCK_STATE_READY then
              (let bytesRemainingToCopy = itemSize * itemCount - bytesCopiedSoFar;
                   ((copyStatus, bytesCopied, written), s) =
                      copyBlockData frontBlockReq bytesRemainingToCopy itemSize s;
                   out = out @ written;
                   bytesCopiedSoFar = bytesCopiedSoFar + bytesCopied
               in case copyStatus of
                    AT_BLOCK_END \<Rightarrow>
                      (let (readBlockReq, s) = allocFileIoRequest s in
                       if readBlockReq = 0 then
                         Some ((bytesCopiedSoFar div itemSize, out),
                               set_state q STREAM_STATE_ERROR s)
                       else
                         read_loop B q itemSize itemCount bytesCopiedSoFar out
                           (snd (receiveOneBlock q
                             (flushBlock q frontBlockReq
                               (prefetchQueue_pop_front q
                                 (initLinkAndSendSequentialBlockRequest B q readBlockReq s))))))
                  | AT_FINAL_BLOCK_END \<Rightarrow>
                      Some ((bytesCopiedSoFar div itemSize, out),
                            set_state q STREAM_STATE_OPEN_EOF s)
                  | CAN_CONTINUE \<Rightarrow>
                      read_loop B q itemSize itemCount bytesCopiedSoFar out s)
            else
              Some ((bytesCopiedSoFar div itemSize, out),
                    set_state q
                      (if requestType s frontBlockReq = BLOCK_STATE_ERROR
                       then STREAM_STATE_ERROR else STREAM_STATE_OPEN_BUFFERING) s))
      else Some ((itemCount, out), s))"

definition read_or_write ::
  "size_t \<Rightarrow> addr \<Rightarrow> size_t \<Rightarrow> size_t \<Rightarrow> sys \<Rightarrow> ((size_t \<times> byte list) \<times> sys) option" where
  "read_or_write B q itemSize itemCount s =
     (let s = snd (pollState q s) in
      if state' s q = STREAM_STATE_OPENING \<or> state' s q = STREAM_STATE_OPEN_IDLE
         \<or> state' s q = STREAM_STATE_OPEN_EOF \<or> state' s q = STREAM_STATE_ERROR
      then Some ((0, []), s)
      else if state' s q = STREAM_STATE_OPEN_BUFFERING then
        (let s = receive_all q s in
         if state' s q \<noteq> STREAM_STATE_OPEN_STREAMING then Some ((0, []), s)
         else read_loop B q itemSize itemCount 0 [] s)
      else if state' s q = STREAM_STATE_OPEN_STREAMING then
        read_loop B q itemSize itemCount 0 [] s
      else Some ((0, []), s))"

section \<open>The server (FileIoServer.cpp)\<close>

text \<open>
  \<^verbatim>\<open>new\<close> hands out the address after the last one it gave; \<^verbatim>\<open>delete\<close> and \<^verbatim>\<open>fclose\<close> are
  recorded in \<open>deleted\<close> and \<open>fclosed\<close>.
\<close>

definition allocDataBlock :: "size_t \<Rightarrow> os_env \<Rightarrow> sys \<Rightarrow> addr \<times> sys" where
  "allocDataBlock B env s =
     (let result = (if new_ok env then Suc (next_new s) else 0);
          s = assert' ASSERT_allocDataBlock (result \<noteq> 0) s;
          s = s\<lparr>next_new := Suc (next_new s),
                blocks := (blocks s)(result :=
                  \<lparr>capacityBytes = B, validCountBytes = 0,
                   data = take (unat B) (uninit env @ replicate (unat B) 0)\<rparr>)\<rparr>
      in (result, s))"

definition freeDataBlock :: "addr \<Rightarrow> sys \<Rightarrow> sys" where
  "freeDataBlock b s = s\<lparr>deleted := b # deleted s\<rparr>"

text \<open>
  \<^verbatim>\<open>validCountBytes = fread(data, 1, capacityBytes, fp)\<close>: the bytes the environment
  delivers, at most the capacity, overwrite the start of the buffer.
\<close>

definition fread_block :: "os_env \<Rightarrow> addr \<Rightarrow> sys \<Rightarrow> sys" where
  "fread_block env dataBlock s =
     (let blk = blocks s dataBlock;
          n = min (length (fread_bytes env)) (unat (capacityBytes blk))
      in s\<lparr>blocks := (blocks s)(dataBlock :=
            blk\<lparr>validCountBytes := of_nat n,
                data := take n (fread_bytes env) @ drop n (data blk)\<rparr>)\<rparr>)"

definition incrementDependentClientCount :: "addr \<Rightarrow> sys \<Rightarrow> sys" where
  "incrementDependentClientCount fileRecord s =
     s\<lparr>fileRecords := (fileRecords s)(fileRecord :=
         (fileRecords s fileRecord)\<lparr>dependentClientCount :=
            dependentClientCount (fileRecords s fileRecord) + 1\<rparr>)\<rparr>"

definition releaseFileRecordClientRef :: "addr \<Rightarrow> sys \<Rightarrow> sys" where
  "releaseFileRecordClientRef fileRecord s =
     (let s = s\<lparr>fileRecords := (fileRecords s)(fileRecord :=
                  (fileRecords s fileRecord)\<lparr>dependentClientCount :=
                     dependentClientCount (fileRecords s fileRecord) - 1\<rparr>)\<rparr>
      in if dependentClientCount (fileRecords s fileRecord) = 0 then
           s\<lparr>fclosed := fp (fileRecords s fileRecord) # fclosed s,
             deleted := fileRecord # deleted s\<rparr>
         else s)"

definition handleCloseFileRequest :: "addr \<Rightarrow> sys \<Rightarrow> sys" where
  "handleCloseFileRequest r s =
     (let s = assert' ASSERT_server_requestType (requestType s r = CLOSE_FILE) s;
          s = releaseFileRecordClientRef (closeFile_fileHandle s r) s
      in freeFileIoRequest r s)"

definition handleReleaseReadBlockRequest :: "addr \<Rightarrow> sys \<Rightarrow> sys" where
  "handleReleaseReadBlockRequest r s =
     (let s = assert' ASSERT_server_requestType (requestType s r = RELEASE_READ_BLOCK) s;
          s = assert' ASSERT_server_release_dataBlock (releaseReadBlock_dataBlock s r \<noteq> 0) s;
          s = freeDataBlock (releaseReadBlock_dataBlock s r) s;
          s = releaseFileRecordClientRef (releaseReadBlock_fileHandle s r) s
      in freeFileIoRequest r s)"

definition handleReleaseUnmodifiedWriteBlockRequest :: "addr \<Rightarrow> sys \<Rightarrow> sys" where
  "handleReleaseUnmodifiedWriteBlockRequest r s =
     (let s = assert' ASSERT_server_requestType
                (requestType s r = RELEASE_UNMODIFIED_WRITE_BLOCK) s;
          s = freeDataBlock (releaseUnmodifiedWriteBlock_dataBlock s r) s;
          s = releaseFileRecordClientRef (releaseUnmodifiedWriteBlock_fileHandle s r) s
      in freeFileIoRequest r s)"

text \<open>The \<^verbatim>\<open>fseek\<close> and \<^verbatim>\<open>fwrite\<close> of a commit change the file only, which the model does
  not hold.\<close>

definition handleCommitModifiedWriteBlockRequest :: "os_env \<Rightarrow> addr \<Rightarrow> sys \<Rightarrow> sys" where
  "handleCommitModifiedWriteBlockRequest env r s =
     (let s = assert' ASSERT_server_requestType
                (requestType s r = COMMIT_MODIFIED_WRITE_BLOCK) s;
          s = freeDataBlock (commitModifiedWriteBlock_dataBlock s r) s;
          s = releaseFileRecordClientRef (commitModifiedWriteBlock_fileHandle s r) s
      in freeFileIoRequest r s)"

definition cleanupOneRequestResult :: "addr \<Rightarrow> sys \<Rightarrow> sys" where
  "cleanupOneRequestResult r s =
     (if requestType s r = OPEN_FILE then
        (let s = s\<lparr>openFile_path := (openFile_path s)(r := None)\<rparr> in
         if openFile_fileHandle s r \<noteq> 0 then
           (let fileHandle = openFile_fileHandle s r;
                s = s\<lparr>requestType := (requestType s)(r := CLOSE_FILE),
                      closeFile_fileHandle := (closeFile_fileHandle s)(r := fileHandle)\<rparr>
            in handleCloseFileRequest r s)
         else freeFileIoRequest r s)
      else if requestType s r = READ_BLOCK then
        (if readBlock_dataBlock s r \<noteq> 0 then
           (let fileHandle = readBlock_fileHandle s r;
                dataBlock = readBlock_dataBlock s r;
                s = s\<lparr>requestType := (requestType s)(r := RELEASE_READ_BLOCK),
                      releaseReadBlock_fileHandle := (releaseReadBlock_fileHandle s)(r := fileHandle),
                      releaseReadBlock_dataBlock := (releaseReadBlock_dataBlock s)(r := dataBlock)\<rparr>
            in handleReleaseReadBlockRequest r s)
         else freeFileIoRequest r s)
      else if requestType s r = ALLOCATE_WRITE_BLOCK then
        (if allocateWriteBlock_dataBlock s r \<noteq> 0 then
           (let fileHandle = allocateWriteBlock_fileHandle s r;
                dataBlock = allocateWriteBlock_dataBlock s r;
                s = s\<lparr>requestType := (requestType s)(r := RELEASE_UNMODIFIED_WRITE_BLOCK),
                      releaseUnmodifiedWriteBlock_fileHandle :=
                        (releaseUnmodifiedWriteBlock_fileHandle s)(r := fileHandle),
                      releaseUnmodifiedWriteBlock_dataBlock :=
                        (releaseUnmodifiedWriteBlock_dataBlock s)(r := dataBlock)\<rparr>
            in handleReleaseUnmodifiedWriteBlockRequest r s)
         else freeFileIoRequest r s)
      else assert' ASSERT_server_cleanup_default False s)"

definition completeRequestToClientResultQueue :: "os_env \<Rightarrow> addr \<Rightarrow> addr \<Rightarrow> sys \<Rightarrow> sys" where
  "completeRequestToClientResultQueue env clientResultQueueContainer r s =
     (let resultQueueIsAwaitingCleanup =
            (requestType s clientResultQueueContainer = RESULT_QUEUE_IS_AWAITING_CLEANUP)
      in if resultQueueIsAwaitingCleanup then
           (let s = cleanupOneRequestResult r s in
            if expectedResultCount s clientResultQueueContainer = 0
            then freeFileIoRequest clientResultQueueContainer s else s)
         else resultQueue_push (rq_slot env) clientResultQueueContainer r s)"

definition handleOpenFileRequest :: "os_env \<Rightarrow> addr \<Rightarrow> sys \<Rightarrow> sys" where
  "handleOpenFileRequest env r s =
     (let s = assert' ASSERT_server_requestType (requestType s r = OPEN_FILE) s;
          fileRecord = (if new_ok env then Suc (next_new s) else 0);
          s = (if fileRecord \<noteq> 0 then
                 (let s = s\<lparr>next_new := Suc (next_new s)\<rparr> in
                  if fopen_fp env \<noteq> 0 then
                    s\<lparr>fileRecords := (fileRecords s)(fileRecord :=
                         \<lparr>fp = fopen_fp env, dependentClientCount = 1\<rparr>),
                      openFile_fileHandle := (openFile_fileHandle s)(r := fileRecord),
                      resultStatus := (resultStatus s)(r := NOERROR)\<rparr>
                  else
                    s\<lparr>deleted := fileRecord # deleted s,
                      openFile_fileHandle := (openFile_fileHandle s)(r := 0),
                      resultStatus := (resultStatus s)(r :=
                        (if errno env = NOERROR then EIO else errno env))\<rparr>)
               else
                 s\<lparr>openFile_fileHandle := (openFile_fileHandle s)(r := 0),
                   resultStatus := (resultStatus s)(r := ENOMEM)\<rparr>)
      in completeRequestToClientResultQueue env (openFile_resultQueue s r) r s)"

definition handleReadBlockRequest :: "size_t \<Rightarrow> os_env \<Rightarrow> addr \<Rightarrow> sys \<Rightarrow> sys" where
  "handleReadBlockRequest B env r s =
     (let s = assert' ASSERT_server_requestType (requestType s r = READ_BLOCK) s;
          fileRecord = readBlock_fileHandle s r;
          s = (if fileRecord \<noteq> 0 then
                 (let (dataBlock, s) = allocDataBlock B env s in
                  if dataBlock \<noteq> 0 then
                    (if fseek_rc env \<noteq> 0 then
                       freeDataBlock dataBlock
                         (s\<lparr>resultStatus := (resultStatus s)(r :=
                               (if errno env = NOERROR then EIO else errno env)),
                            readBlock_dataBlock := (readBlock_dataBlock s)(r := 0),
                            readBlock_isAtEof := (readBlock_isAtEof s)(r := False)\<rparr>)
                     else
                       (let s = fread_block env dataBlock s in
                        if validCountBytes (blocks s dataBlock) = capacityBytes (blocks s dataBlock)
                        then
                          s\<lparr>resultStatus := (resultStatus s)(r := NOERROR),
                            readBlock_dataBlock := (readBlock_dataBlock s)(r := dataBlock),
                            readBlock_isAtEof := (readBlock_isAtEof s)(r := False)\<rparr>
                        else if feof_rc env \<noteq> 0 then
                          s\<lparr>resultStatus := (resultStatus s)(r := NOERROR),
                            readBlock_dataBlock := (readBlock_dataBlock s)(r := dataBlock),
                            readBlock_isAtEof := (readBlock_isAtEof s)(r := True)\<rparr>
                        else
                          freeDataBlock dataBlock
                            (s\<lparr>resultStatus := (resultStatus s)(r :=
                                  (if errno env = NOERROR then EIO else errno env)),
                               readBlock_dataBlock := (readBlock_dataBlock s)(r := 0),
                               readBlock_isAtEof := (readBlock_isAtEof s)(r := False)\<rparr>)))
                  else s\<lparr>resultStatus := (resultStatus s)(r := ENOMEM)\<rparr>)
               else s\<lparr>resultStatus := (resultStatus s)(r := EBADF)\<rparr>);
          s = (if readBlock_dataBlock s r \<noteq> 0
               then incrementDependentClientCount fileRecord s else s)
      in completeRequestToClientResultQueue env (readBlock_resultQueue s r) r s)"

definition handleAllocateWriteBlockRequest :: "size_t \<Rightarrow> os_env \<Rightarrow> addr \<Rightarrow> sys \<Rightarrow> sys" where
  "handleAllocateWriteBlockRequest B env r s =
     (let s = assert' ASSERT_server_requestType (requestType s r = ALLOCATE_WRITE_BLOCK) s;
          fileRecord = allocateWriteBlock_fileHandle s r;
          (dataBlock, s) = allocDataBlock B env s;
          s = (if dataBlock \<noteq> 0 \<and> fseek_rc env = 0 then fread_block env dataBlock s else s);
          s = s\<lparr>allocateWriteBlock_dataBlock := (allocateWriteBlock_dataBlock s)(r := dataBlock)\<rparr>;
          s = completeRequestToClientResultQueue env (allocateWriteBlock_resultQueue s r) r s
      in incrementDependentClientCount fileRecord s)"

lemma cleanupOneRequestResult_items:
  "resultQueue_items (cleanupOneRequestResult r s) = resultQueue_items s"
  by (simp add: cleanupOneRequestResult_def handleCloseFileRequest_def
      handleReleaseReadBlockRequest_def handleReleaseUnmodifiedWriteBlockRequest_def
      releaseFileRecordClientRef_def freeDataBlock_def freeFileIoRequest_def
      assert'_def Let_def)

text \<open>\<^verbatim>\<open>while (FileIoRequest *r = resultQueue.pop()) cleanupOneRequestResult(r);\<close>\<close>

function cleanup_drain :: "addr \<Rightarrow> sys \<Rightarrow> sys" where
  "cleanup_drain c s =
     (let (r, s') = resultQueue_pop c s in
      if r \<noteq> 0 then cleanup_drain c (cleanupOneRequestResult r s') else s')"
  by pat_completeness auto
termination
  by (relation "measure (\<lambda>(c, s). length (resultQueue_items s c))")
     (auto simp: cleanupOneRequestResult_items resultQueue_pop_def split: list.splits)

declare cleanup_drain.simps [simp del]

definition handleCleanupResultQueueRequest :: "addr \<Rightarrow> sys \<Rightarrow> sys" where
  "handleCleanupResultQueueRequest clientResultQueueContainer s =
     (let s = assert' ASSERT_server_requestType
                (requestType s clientResultQueueContainer = CLEANUP_RESULT_QUEUE) s
      in if expectedResultCount s clientResultQueueContainer > 0 then
           (let s = cleanup_drain clientResultQueueContainer s in
            if expectedResultCount s clientResultQueueContainer = 0
            then freeFileIoRequest clientResultQueueContainer s
            else s\<lparr>requestType := (requestType s)(clientResultQueueContainer :=
                     RESULT_QUEUE_IS_AWAITING_CLEANUP)\<rparr>)
         else freeFileIoRequest clientResultQueueContainer s)"

text \<open>One turn of the loop of \<^verbatim>\<open>handleAllPendingRequests\<close>: pop a request and dispatch it.\<close>

definition handleRequest :: "size_t \<Rightarrow> os_env \<Rightarrow> addr \<Rightarrow> sys \<Rightarrow> sys" where
  "handleRequest B env r s =
     (if requestType s r = OPEN_FILE then handleOpenFileRequest env r s
      else if requestType s r = CLOSE_FILE then handleCloseFileRequest r s
      else if requestType s r = READ_BLOCK then handleReadBlockRequest B env r s
      else if requestType s r = RELEASE_READ_BLOCK then handleReleaseReadBlockRequest r s
      else if requestType s r = ALLOCATE_WRITE_BLOCK then handleAllocateWriteBlockRequest B env r s
      else if requestType s r = COMMIT_MODIFIED_WRITE_BLOCK
        then handleCommitModifiedWriteBlockRequest env r s
      else if requestType s r = RELEASE_UNMODIFIED_WRITE_BLOCK
        then handleReleaseUnmodifiedWriteBlockRequest r s
      else if requestType s r = CLEANUP_RESULT_QUEUE then handleCleanupResultQueueRequest r s
      else s)"

definition handlePendingRequest :: "size_t \<Rightarrow> os_env \<Rightarrow> sys \<Rightarrow> sys" where
  "handlePendingRequest B env s =
     (case mailbox s of
        [] \<Rightarrow> s
      | r # rest \<Rightarrow> handleRequest B env r (s\<lparr>mailbox := rest\<rparr>))"

section \<open>Runs of one stream against the server\<close>

text \<open>
  \<^verbatim>\<open>startFileIoServer(n)\<close> creates the pool of \<open>n\<close> request nodes, at the addresses
  \<open>1..n\<close>; \<open>mem\<close> is what the memory holds before.
\<close>

definition startFileIoServer :: "sys \<Rightarrow> nat \<Rightarrow> sys" where
  "startFileIoServer mem n = mem\<lparr>pool := [1..<Suc n], mailbox := [], faults := []\<rparr>"

text \<open>
  The events of a run: the client polls, seeks or reads, or the server handles the next
  request of its mailbox, with the environment's answers depending on the state.
\<close>

datatype event = Poll | Seek size_t | Read size_t size_t | Server "sys \<Rightarrow> os_env"

fun step :: "size_t \<Rightarrow> addr \<Rightarrow> event \<Rightarrow> sys \<Rightarrow> sys option" where
  "step B q Poll s = Some (snd (pollState q s))"
| "step B q (Seek pos) s = map_option snd (seek B q pos s)"
| "step B q (Read itemSize itemCount) s = map_option snd (read_or_write B q itemSize itemCount s)"
| "step B q (Server os) s = Some (handlePendingRequest B (os s) s)"

fun run :: "size_t \<Rightarrow> addr \<Rightarrow> event list \<Rightarrow> sys \<Rightarrow> sys option" where
  "run B q [] s = Some s"
| "run B q (e # es) s = (case step B q e s of None \<Rightarrow> None | Some s' \<Rightarrow> run B q es s')"

text \<open>
  The states a stream \<open>q\<close> can be in: the server is started, the stream is opened, and
  any events follow.
\<close>

definition reachable :: "size_t \<Rightarrow> addr \<Rightarrow> sys \<Rightarrow> bool" where
  "reachable B q s \<longleftrightarrow>
     (\<exists>mem n path openMode es.
        q \<noteq> 0 \<and> B \<noteq> 0
        \<and> run B q es (snd (FileIoReadStream_open path openMode (startFileIoServer mem n))) = Some s
        \<and> fst (FileIoReadStream_open path openMode (startFileIoServer mem n)) = q)"

text \<open>
  A file system that answers from the contents of one file: \<^verbatim>\<open>fseek\<close> succeeds, \<^verbatim>\<open>fread\<close>
  delivers the bytes from the requested position, and end-of-file is set when fewer than a
  block were left. Replies are queued in order of arrival.
\<close>

definition file_os :: "byte list \<Rightarrow> size_t \<Rightarrow> sys \<Rightarrow> os_env" where
  "file_os content B s =
     (let pos = (case mailbox s of [] \<Rightarrow> 0 | r # _ \<Rightarrow> unat (readBlock_filePosition s r));
          rest = drop pos content
      in \<lparr>new_ok = True, fopen_fp = 1, fseek_rc = 0, fread_bytes = take (unat B) rest,
          feof_rc = (if length rest < unat B then 1 else 0), errno = 0,
          uninit = replicate (unat B) 170,
          rq_slot = (case mailbox s of [] \<Rightarrow> 0
                     | r # _ \<Rightarrow> length (resultQueue_items s (readBlock_resultQueue s r)))\<rparr>)"

section \<open>The prefetch queue as a list, and the invariant of an open stream\<close>

text \<open>
  \<open>chain nxt a xs\<close>: following the links \<open>nxt\<close> from \<open>a\<close> visits exactly the nodes \<open>xs\<close> and
  then reaches the null pointer. The prefetch queue of the stream \<open>q\<close> is the chain of client
  links that starts at the client link of \<open>q\<close>.
\<close>

primrec chain :: "(addr \<Rightarrow> addr) \<Rightarrow> addr \<Rightarrow> addr list \<Rightarrow> bool" where
  "chain nxt a [] = (a = 0)"
| "chain nxt a (x # xs) = (a = x \<and> x \<noteq> 0 \<and> chain nxt (nxt x) xs)"

lemma chain_zero [simp]: "chain nxt 0 xs = (xs = [])"
  by (cases xs) auto

lemma chain_nonzero: "chain nxt a xs \<Longrightarrow> 0 \<notin> set xs"
  by (induction xs arbitrary: a) auto

lemma chain_unique: "chain nxt a xs \<Longrightarrow> chain nxt a ys \<Longrightarrow> xs = ys"
proof (induction xs arbitrary: a ys)
  case Nil
  then show ?case by simp
next
  case (Cons x xs)
  then show ?case by (cases ys) auto
qed

lemma chain_suffix:
  "chain nxt a (xs @ y # ys) \<Longrightarrow> chain nxt (nxt y) ys"
  by (induction xs arbitrary: a) auto

lemma chain_hd_notin_tl: "chain nxt (nxt x) xs \<Longrightarrow> x \<notin> set xs"
proof
  assume c: "chain nxt (nxt x) xs" and "x \<in> set xs"
  then obtain bs cs where xs: "xs = bs @ x # cs" by (auto simp: in_set_conv_decomp)
  with c have "chain nxt (nxt x) cs" by (auto dest: chain_suffix)
  with c have "xs = cs" by (rule chain_unique)
  with xs show False by simp
qed

lemma chain_distinct: "chain nxt a xs \<Longrightarrow> distinct xs"
  by (induction xs arbitrary: a) (auto dest: chain_hd_notin_tl)

lemma chain_upd [simp]: "x \<notin> set xs \<Longrightarrow> chain (nxt(x := v)) a xs = chain nxt a xs"
  by (induction xs arbitrary: a) auto

lemma chain_last: "chain nxt a xs \<Longrightarrow> xs \<noteq> [] \<Longrightarrow> nxt (last xs) = 0"
  by (induction xs arbitrary: a) (auto split: if_splits)

lemma chain_snoc:
  "chain nxt a xs \<Longrightarrow> xs \<noteq> [] \<Longrightarrow> r \<notin> set xs \<Longrightarrow> r \<noteq> 0 \<Longrightarrow> nxt r = 0 \<Longrightarrow>
     chain (nxt(last xs := r)) a (xs @ [r])"
proof (induction xs arbitrary: a)
  case Nil
  then show ?case by simp
next
  case (Cons x xs)
  show ?case
  proof (cases "xs = []")
    case True
    with Cons.prems show ?thesis by auto
  next
    case False
    from Cons.prems have d: "x \<notin> set xs" by (auto dest: chain_hd_notin_tl)
    with False have "last xs \<noteq> x" by (metis last_in_set)
    with Cons False show ?thesis by auto
  qed
qed



definition links :: "size_t \<Rightarrow> addr \<Rightarrow> sys \<Rightarrow> addr list \<Rightarrow> bool" where
  "links B q s xs \<longleftrightarrow>
     q \<noteq> 0 \<and> transit_link s q \<noteq> 0 \<and> transit_link s q \<noteq> q
     \<and> chain (client_link s) (client_link s q) xs
     \<and> q \<notin> set xs \<and> transit_link s q \<notin> set xs
     \<and> (xs \<noteq> [] \<longrightarrow> client_link s (transit_link s q) = last xs)
     \<and> (\<forall>x\<in>set xs. client_link s x \<noteq> 0 \<longrightarrow>
            readBlock_filePosition s (client_link s x) = readBlock_filePosition s x + B)"

definition mb_ok :: "sys \<Rightarrow> addr \<Rightarrow> addr list \<Rightarrow> addr \<Rightarrow> bool" where
  "mb_ok s q xs r \<longleftrightarrow>
     (requestType s r = READ_BLOCK \<and> readBlock_resultQueue s r = q
        \<and> readBlock_dataBlock s r = 0 \<and> (clientInt s r = - 1) = (r \<notin> set xs))
     \<or> (requestType s r = RELEASE_READ_BLOCK \<and> r \<notin> set xs)"

definition rq_ok :: "sys \<Rightarrow> addr list \<Rightarrow> addr \<Rightarrow> bool" where
  "rq_ok s xs r \<longleftrightarrow>
     requestType s r = READ_BLOCK \<and> (clientInt s r = - 1) = (r \<notin> set xs)
     \<and> (resultStatus s r \<noteq> 0 \<longrightarrow> readBlock_dataBlock s r = 0)"

definition fifo_ok :: "sys \<Rightarrow> addr \<Rightarrow> addr \<Rightarrow> bool" where
  "fifo_ok s q x \<longleftrightarrow>
     (requestType s x = READ_BLOCK \<and> x \<in> set (mailbox s @ resultQueue_items s q))
     \<or> ((requestType s x = BLOCK_STATE_READY \<or> requestType s x = BLOCK_STATE_ERROR)
         \<and> x \<notin> set (mailbox s @ resultQueue_items s q))"

definition owner :: "addr \<Rightarrow> sys \<Rightarrow> addr list \<Rightarrow> bool" where
  "owner q s xs \<longleftrightarrow>
     distinct (pool s @ mailbox s @ resultQueue_items s q)
     \<and> 0 \<notin> set (pool s @ mailbox s @ resultQueue_items s q)
     \<and> q \<notin> set (pool s @ mailbox s @ resultQueue_items s q)
     \<and> transit_link s q \<notin> set (pool s @ mailbox s @ resultQueue_items s q)
     \<and> set (pool s) \<inter> set xs = {}
     \<and> (\<forall>r\<in>set (mailbox s). mb_ok s q xs r)
     \<and> (\<forall>r\<in>set (resultQueue_items s q). rq_ok s xs r)
     \<and> (\<forall>x\<in>set xs. fifo_ok s q x)"

definition status_ok :: "addr \<Rightarrow> sys \<Rightarrow> bool" where
  "status_ok q s \<longleftrightarrow>
     requestType s q \<in> {STREAM_STATE_OPEN_IDLE, STREAM_STATE_OPEN_EOF,
        STREAM_STATE_OPEN_BUFFERING, STREAM_STATE_OPEN_STREAMING, STREAM_STATE_ERROR}
     \<and> (resultStatus s q \<noteq> 0 \<longrightarrow> resultStatus s (transit_link s q) = resultStatus s q)"

definition core :: "size_t \<Rightarrow> addr \<Rightarrow> sys \<Rightarrow> addr list \<Rightarrow> bool" where
  "core B q s xs \<longleftrightarrow> links B q s xs \<and> owner q s xs \<and> status_ok q s"

lemma assert'_eq: "assert' l c s = s\<lparr>faults := (if c then faults s else l # faults s)\<rparr>"
  by (simp add: assert'_def)

lemma links_cong:
  "transit_link s' q = transit_link s q \<Longrightarrow> client_link s' = client_link s \<Longrightarrow>
   readBlock_filePosition s' = readBlock_filePosition s \<Longrightarrow> links B q s' xs = links B q s xs"
  by (simp add: links_def)

lemma receiveOneBlock_links:
  "links B q (snd (receiveOneBlock q s)) xs = links B q s xs"
  by (rule links_cong)
     (simp_all add: receiveOneBlock_def resultQueue_pop_def assert'_eq isAcquireBlockRequest_def
       isDiscarded_def sendFileIoRequestToServer_def transformToReleaseUnmodified_def
       freeFileIoRequest_def hasDataBlock_def waitingForBlocksCount'_def set_state_def Let_def
       split: list.splits)

lemma receiveOneBlock_owner:
  assumes l: "links B q s xs" and o: "owner q s xs"
  shows "owner q (snd (receiveOneBlock q s)) xs"
proof (cases "resultQueue_items s q")
  case Nil
  with o show ?thesis by (simp add: receiveOneBlock_def resultQueue_pop_def)
next
  case (Cons r rs)
  from o Cons have r: "r \<noteq> 0" "r \<noteq> q" "r \<noteq> transit_link s q" "r \<notin> set (pool s)"
      "r \<notin> set (mailbox s)" "r \<notin> set rs" "rq_ok s xs r"
    by (auto simp: owner_def)
  from o Cons have d: "distinct (pool s @ mailbox s @ rs)" "0 \<notin> set (pool s @ mailbox s @ rs)"
      "q \<notin> set (pool s @ mailbox s @ rs)" "transit_link s q \<notin> set (pool s @ mailbox s @ rs)"
      "set (pool s) \<inter> set xs = {}"
    by (auto simp: owner_def)
  from o Cons have m: "\<forall>r\<in>set (mailbox s). mb_ok s q xs r" "\<forall>r\<in>set rs. rq_ok s xs r"
      "\<forall>x\<in>set xs. fifo_ok s q x"
    by (auto simp: owner_def)
  from l have qx: "q \<notin> set xs" by (simp add: links_def)
  show ?thesis
  proof (cases "clientInt s r = - 1")
    case True
    with r have rx: "r \<notin> set xs" by (simp add: rq_ok_def)
    show ?thesis
      using Cons True r d m rx
      unfolding owner_def receiveOneBlock_def resultQueue_pop_def assert'_eq isAcquireBlockRequest_def
        isDiscarded_def sendFileIoRequestToServer_def transformToReleaseUnmodified_def
        freeFileIoRequest_def hasDataBlock_def waitingForBlocksCount'_def set_state_def Let_def
      by (auto simp: mb_ok_def rq_ok_def fifo_ok_def)
  next
    case False
    with r have rx: "r \<in> set xs" by (simp add: rq_ok_def)
    show ?thesis
      using Cons False r d m rx qx
      unfolding owner_def receiveOneBlock_def resultQueue_pop_def assert'_eq isAcquireBlockRequest_def
        isDiscarded_def sendFileIoRequestToServer_def transformToReleaseUnmodified_def
        freeFileIoRequest_def hasDataBlock_def waitingForBlocksCount'_def set_state_def Let_def
      by (auto simp: mb_ok_def rq_ok_def fifo_ok_def)
  qed
qed

section \<open>Concrete states for examples\<close>

text \<open>A memory that holds zeros everywhere.\<close>

definition mem0 :: sys where
  "mem0 = \<lparr>requestType = (\<lambda>_. OPEN_FILE), resultStatus = (\<lambda>_. 0), transit_link = (\<lambda>_. 0),
     client_link = (\<lambda>_. 0), clientInt = (\<lambda>_. 0), openFile_path = (\<lambda>_. None),
     openFile_openMode = (\<lambda>_. READ_ONLY_OPEN_MODE), openFile_fileHandle = (\<lambda>_. 0),
     openFile_resultQueue = (\<lambda>_. 0), closeFile_fileHandle = (\<lambda>_. 0),
     readBlock_fileHandle = (\<lambda>_. 0), readBlock_filePosition = (\<lambda>_. 0),
     readBlock_dataBlock = (\<lambda>_. 0), readBlock_isAtEof = (\<lambda>_. False),
     readBlock_resultQueue = (\<lambda>_. 0), releaseReadBlock_fileHandle = (\<lambda>_. 0),
     releaseReadBlock_dataBlock = (\<lambda>_. 0), allocateWriteBlock_fileHandle = (\<lambda>_. 0),
     allocateWriteBlock_filePosition = (\<lambda>_. 0), allocateWriteBlock_dataBlock = (\<lambda>_. 0),
     allocateWriteBlock_resultQueue = (\<lambda>_. 0), commitModifiedWriteBlock_fileHandle = (\<lambda>_. 0),
     commitModifiedWriteBlock_dataBlock = (\<lambda>_. 0),
     releaseUnmodifiedWriteBlock_fileHandle = (\<lambda>_. 0),
     releaseUnmodifiedWriteBlock_dataBlock = (\<lambda>_. 0),
     resultQueue_items = (\<lambda>_. []), resultQueue_expected = (\<lambda>_. 0),
     pool = [], mailbox = [],
     blocks = (\<lambda>_. \<lparr>capacityBytes = 0, validCountBytes = 0, data = []\<rparr>),
     fileRecords = (\<lambda>_. \<lparr>fp = 0, dependentClientCount = 0\<rparr>),
     next_new = 0, deleted = [], fclosed = [], faults = []\<rparr>"

section \<open>Replies taken from the result queue\<close>

text \<open>
  Claim C5. When \<^verbatim>\<open>receiveOneBlock\<close> pops a reply \<open>r\<close> from the result queue of the stream
  \<open>q\<close>: a discarded reply is turned into a \<^verbatim>\<open>RELEASE_READ_BLOCK\<close> request and sent to the
  server if it succeeded, and is freed if it failed, and in both cases the count of awaited
  blocks and the stream state stay as they were; a reply that is not discarded decrements
  the count, the stream becomes \<^verbatim>\<open>OPEN_STREAMING\<close> exactly when the count reaches zero and
  keeps its state otherwise (so it does not become \<^verbatim>\<open>ERROR\<close> here), and the node is marked
  \<^verbatim>\<open>BLOCK_READY\<close> on success and \<^verbatim>\<open>BLOCK_ERROR\<close> on failure.
\<close>

theorem receiveOneBlock_reply:
  "resultQueue_items s q = r # rs \<Longrightarrow> r \<noteq> 0 \<Longrightarrow> r \<noteq> q \<Longrightarrow>
   (let s' = snd (receiveOneBlock q s) in
      fst (receiveOneBlock q s)
      \<and> resultQueue_items s' q = rs
      \<and> (if isDiscarded s r then
            waitingForBlocksCount' s' q = waitingForBlocksCount' s q
            \<and> state' s' q = state' s q
            \<and> (if resultStatus s r = NOERROR
                then requestType s' r = RELEASE_READ_BLOCK
                     \<and> mailbox s' = mailbox s @ [r] \<and> pool s' = pool s
                else pool s' = r # pool s \<and> mailbox s' = mailbox s)
          else
            waitingForBlocksCount' s' q = waitingForBlocksCount' s q - 1
            \<and> state' s' q =
                (if waitingForBlocksCount' s q - 1 = 0 then STREAM_STATE_OPEN_STREAMING
                 else state' s q)
            \<and> requestType s' r =
                (if resultStatus s r = NOERROR then BLOCK_STATE_READY else BLOCK_STATE_ERROR)
            \<and> mailbox s' = mailbox s \<and> pool s' = pool s))"
  by (simp add: receiveOneBlock_def resultQueue_pop_def assert'_eq isAcquireBlockRequest_def
      isDiscarded_def sendFileIoRequestToServer_def transformToReleaseUnmodified_def
      freeFileIoRequest_def hasDataBlock_def waitingForBlocksCount'_def set_state_def state'_def
      Let_def)

text \<open>
  A stream that awaits two blocks and has one reply queued: a failed reply that is not
  discarded, and a successful reply that is discarded.
\<close>

definition reply_example :: "int \<Rightarrow> size_t \<Rightarrow> sys" where
  "reply_example status cursor =
     mem0\<lparr>requestType := (\<lambda>_. OPEN_FILE)(1 := STREAM_STATE_OPEN_BUFFERING, 3 := READ_BLOCK),
          clientInt := (\<lambda>_. 0)(1 := 2, 3 := cursor),
          resultStatus := (\<lambda>_. 0)(3 := status),
          resultQueue_items := (\<lambda>_. [])(1 := [3]),
          resultQueue_expected := (\<lambda>_. 0)(1 := 2)\<rparr>"

theorem receiveOneBlock_reply_witness:
  "resultQueue_items (reply_example 5 0) 1 = [3]
   \<and> \<not> isDiscarded (reply_example 5 0) 3
   \<and> requestType (snd (receiveOneBlock 1 (reply_example 5 0))) 3 = BLOCK_STATE_ERROR
   \<and> state' (snd (receiveOneBlock 1 (reply_example 5 0))) 1 = STREAM_STATE_OPEN_BUFFERING
   \<and> waitingForBlocksCount' (snd (receiveOneBlock 1 (reply_example 5 0))) 1 = 1
   \<and> isDiscarded (reply_example 0 (- 1)) 3
   \<and> mailbox (snd (receiveOneBlock 1 (reply_example 0 (- 1)))) = [3]
   \<and> waitingForBlocksCount' (snd (receiveOneBlock 1 (reply_example 0 (- 1)))) 1 = 2"
  using receiveOneBlock_reply [of "reply_example 5 0" 1 3 "[]"]
    receiveOneBlock_reply [of "reply_example 0 (- 1)" 1 3 "[]"]
  by (simp add: reply_example_def mem0_def isDiscarded_def waitingForBlocksCount'_def state'_def
      Let_def)

end
